theory Spec2Isabelle
  imports Main "HOL-Library.Sublist"
begin

section \<open>JavaScript strings\<close>

text \<open>
  A JavaScript string is modelled as a \<open>string\<close>: a \<open>char\<close> stands for a UTF-16 code
  unit below 256. \<open>is_space\<close> lists the code units below 256 that the regular expression
  class \<^verbatim>\<open>\s\<close> and \<^verbatim>\<open>String.prototype.trim\<close> treat as white space.
\<close>

definition is_space :: "char \<Rightarrow> bool" where
  "is_space c = (c \<in> set [CHR 0x09, CHR 0x0A, CHR 0x0B, CHR 0x0C, CHR 0x0D, CHR 0x20, CHR 0xA0])"

definition trim :: "string \<Rightarrow> string" where
  "trim s = rev (dropWhile is_space (rev (dropWhile is_space s)))"

text \<open>The trailing half of \<open>trim\<close>, used to state what a closing fence removes.\<close>

definition rstrip :: "string \<Rightarrow> string" where
  "rstrip s = rev (dropWhile is_space (rev s))"

text \<open>The two literals of the regular expression: three backquotes followed by \<open>json\<close>, and
  three backquotes.\<close>

definition fence_open :: string where
  "fence_open = [CHR 0x60, CHR 0x60, CHR 0x60, CHR ''j'', CHR ''s'', CHR ''o'', CHR ''n'']"

definition fence_mark :: string where
  "fence_mark = [CHR 0x60, CHR 0x60, CHR 0x60]"

text \<open>
  \<^verbatim>\<open>text.replace(/<fence>json\s*|\s*<fence>/g, '')\<close>: a global replace scans from the left;
  at each position the first alternative is tried, then the second; a match is dropped and
  the scan resumes after it; otherwise the character is kept. \<^verbatim>\<open>\s*\<close> is greedy, and
  giving white space back never helps the second alternative, since a backquote is not
  white space.
\<close>

function strip_fences :: "string \<Rightarrow> string" where
  "strip_fences [] = []"
| "strip_fences (c # cs) =
     (if prefix fence_open (c # cs)
      then strip_fences (dropWhile is_space (drop 7 (c # cs)))
      else if prefix fence_mark (dropWhile is_space (c # cs))
      then strip_fences (drop 3 (dropWhile is_space (c # cs)))
      else c # strip_fences cs)"
  by pat_completeness auto
termination
proof (relation "measure length")
  fix c :: char and cs :: string
  have "length (dropWhile is_space (drop 7 (c # cs))) \<le> length (drop 7 (c # cs))"
    by (rule length_dropWhile_le)
  then show "(dropWhile is_space (drop 7 (c # cs)), c # cs) \<in> measure length"
    by simp
next
  fix c :: char and cs :: string
  assume "prefix fence_mark (dropWhile is_space (c # cs))"
  then have "3 \<le> length (dropWhile is_space (c # cs))"
    by (auto simp: fence_mark_def prefix_def)
  moreover have "length (dropWhile is_space (c # cs)) \<le> length (c # cs)"
    by (rule length_dropWhile_le)
  ultimately show "(drop 3 (dropWhile is_space (c # cs)), c # cs) \<in> measure length"
    by simp
qed simp_all

text \<open>\<^verbatim>\<open>cleaned.replace(/\\'/g, "'")\<close>: a backslash followed by a single quote becomes the
  single quote.\<close>

fun unescape_quotes :: "string \<Rightarrow> string" where
  "unescape_quotes (a # b # r) =
     (if a = CHR 0x5C \<and> b = CHR 0x27 then CHR 0x27 # unescape_quotes r
      else a # unescape_quotes (b # r))"
| "unescape_quotes r = r"

definition cleanJson :: "string \<Rightarrow> string" where
  "cleanJson text = unescape_quotes (trim (strip_fences text))"

text \<open>\<^verbatim>\<open>JSON.parse(cleanJson(text))\<close>. \<open>JSON.parse\<close> is the runtime's; it is a parameter
  that returns the message of its \<open>SyntaxError\<close> or the parsed document.\<close>

definition parse_response :: "(string \<Rightarrow> string + 'doc) \<Rightarrow> string \<Rightarrow> string + 'doc" where
  "parse_response JSON_parse text = JSON_parse (cleanJson text)"

text \<open>A document text between the fence markers, as a model writes it: the opening fence, a
  line break, the text, a line break, the closing fence.\<close>

definition fenced :: "string \<Rightarrow> string" where
  "fenced t = fence_open @ [CHR 0x0A] @ t @ [CHR 0x0A] @ fence_mark"

text \<open>The text has a fence of its own before its first character that is not white space. A
  JSON text never has: it starts with a brace, a bracket, a quote, a sign, a digit or a
  letter.\<close>

definition leading_fence :: "string \<Rightarrow> bool" where
  "leading_fence t = prefix fence_mark (dropWhile is_space t)"

text \<open>\<^verbatim>\<open>s.split(sep)\<close> for a separator of one character.\<close>

fun split_on :: "char \<Rightarrow> string \<Rightarrow> string list" where
  "split_on sep [] = [[]]"
| "split_on sep (c # cs) =
     (if c = sep then [] # split_on sep cs
      else (case split_on sep cs of
              [] \<Rightarrow> [[c]]
            | x # xs \<Rightarrow> (c # x) # xs))"

subsection \<open>Numbers as decimal text\<close>

definition digit_char :: "nat \<Rightarrow> char" where
  "digit_char d = char_of (48 + d)"

definition is_digit :: "char \<Rightarrow> bool" where
  "is_digit c = (48 \<le> (of_char c :: nat) \<and> (of_char c :: nat) \<le> 57)"

definition digit_value :: "char \<Rightarrow> nat" where
  "digit_value c = of_char c - 48"

function digits :: "nat \<Rightarrow> string" where
  "digits n = (if n < 10 then [digit_char n] else digits (n div 10) @ [digit_char (n mod 10)])"
  by pat_completeness auto
termination
  by (relation "measure id") auto

definition dec_value :: "string \<Rightarrow> nat" where
  "dec_value s = foldl (\<lambda>a c. 10 * a + digit_value c) 0 s"

text \<open>\<open>Number.prototype.toString\<close> on an integer below \<open>10^21\<close> in magnitude.\<close>

definition number_to_string :: "int \<Rightarrow> string" where
  "number_to_string i = (if i < 0 then CHR ''-'' # digits (nat (- i)) else digits (nat i))"

section \<open>JavaScript values and objects\<close>

text \<open>
  The values a result row holds: \<open>undefined\<close> (a row shorter than the column list),
  \<open>null\<close>, a number (the integers; fractions and the non-finite numbers are outside the
  model) and a string.
\<close>

datatype jsval = JUndefined | JNull | JNum int | JStr string

definition js_to_string :: "jsval \<Rightarrow> string" where
  "js_to_string v =
     (case v of
        JUndefined \<Rightarrow> ''undefined''
      | JNull \<Rightarrow> ''null''
      | JNum i \<Rightarrow> number_to_string i
      | JStr s \<Rightarrow> s)"

text \<open>
  An object is the list of its own properties in enumeration order: the array indices
  (canonical decimal numerals below \<open>2^32 - 1\<close>) ascending, then the other keys in the
  order of their first assignment.
\<close>

type_synonym 'v jsobject = "(string \<times> 'v) list"

type_synonym jsobj = "jsval jsobject"

definition is_array_index :: "string \<Rightarrow> bool" where
  "is_array_index k =
     (k \<noteq> [] \<and> list_all is_digit k \<and> (k = ''0'' \<or> hd k \<noteq> CHR ''0'')
      \<and> dec_value k < 2 ^ 32 - 1)"

fun obj_insert_index :: "nat \<Rightarrow> string \<Rightarrow> 'v \<Rightarrow> 'v jsobject \<Rightarrow> 'v jsobject" where
  "obj_insert_index n k v [] = [(k, v)]"
| "obj_insert_index n k v ((k', v') # rest) =
     (if is_array_index k' \<and> dec_value k' < n
      then (k', v') # obj_insert_index n k v rest
      else (k, v) # (k', v') # rest)"

text \<open>\<^verbatim>\<open>obj[k] = v\<close>.\<close>

definition obj_set :: "'v jsobject \<Rightarrow> string \<Rightarrow> 'v \<Rightarrow> 'v jsobject" where
  "obj_set obj k v =
     (if map_of obj k \<noteq> None
      then map (\<lambda>(k', v'). if k' = k then (k', v) else (k', v')) obj
      else if is_array_index k then obj_insert_index (dec_value k) k v obj
      else obj @ [(k, v)])"

text \<open>\<^verbatim>\<open>row[i]\<close>: \<open>undefined\<close> past the end.\<close>

definition nth_or_undefined :: "jsval list \<Rightarrow> nat \<Rightarrow> jsval" where
  "nth_or_undefined row i = (if i < length row then row ! i else JUndefined)"

section \<open>The SQL engine\<close>

text \<open>
  The engine (sql.js) is an external collaborator and a parameter of the model.
  \<open>new_Database\<close> is \<^verbatim>\<open>new SQL.Database()\<close>. \<open>db_run\<close> and \<open>db_exec\<close> are
  \<^verbatim>\<open>db.run(sql)\<close> and \<^verbatim>\<open>db.exec(sql)\<close>: each takes the database and the argument
  (\<open>None\<close> for \<open>undefined\<close>) and returns the database after the call together with the
  message of the error thrown, if any; \<open>db_exec\<close> returns its result sets otherwise.
\<close>

record exec_result =
  columns :: "string list"
  row_values :: "jsval list list"

record 'db sql_engine =
  new_Database :: 'db
  db_run :: "'db \<Rightarrow> string option \<Rightarrow> 'db \<times> string option"
  db_exec :: "'db \<Rightarrow> string option \<Rightarrow> 'db \<times> (string + exec_result list)"

definition build_row :: "string list \<Rightarrow> jsval list \<Rightarrow> jsobj" where
  "build_row cols row =
     foldl (\<lambda>obj (i, col). obj_set obj col (nth_or_undefined row i)) [] (enumerate 0 cols)"

definition parseSqlResult :: "exec_result list \<Rightarrow> jsobj list" where
  "parseSqlResult res =
     (case res of
        [] \<Rightarrow> []
      | r # _ \<Rightarrow> map (build_row (columns r)) (row_values r))"

section \<open>JSON.stringify on result rows\<close>

definition hex_digit :: "nat \<Rightarrow> char" where
  "hex_digit n = (if n < 10 then char_of (48 + n) else char_of (87 + n))"

definition escape_char :: "char \<Rightarrow> string" where
  "escape_char c =
     (if c = CHR 0x08 then [CHR 0x5C, CHR ''b'']
      else if c = CHR 0x09 then [CHR 0x5C, CHR ''t'']
      else if c = CHR 0x0A then [CHR 0x5C, CHR ''n'']
      else if c = CHR 0x0C then [CHR 0x5C, CHR ''f'']
      else if c = CHR 0x0D then [CHR 0x5C, CHR ''r'']
      else if c = CHR 0x22 then [CHR 0x5C, CHR 0x22]
      else if c = CHR 0x5C then [CHR 0x5C, CHR 0x5C]
      else if (of_char c :: nat) < 32
      then [CHR 0x5C, CHR ''u'', CHR ''0'', CHR ''0'',
            hex_digit (of_char c div 16), hex_digit (of_char c mod 16)]
      else [c])"

definition quote_json :: "string \<Rightarrow> string" where
  "quote_json s = CHR 0x22 # concat (map escape_char s) @ [CHR 0x22]"










section \<open>The challenge document\<close>

text \<open>
  The parsed document, with the shape the prompt asks for. Every member is optional:
  \<open>None\<close> is a member that is absent (\<open>undefined\<close>). The flat, single-question shape
  carries the members of a question at the top level, so a challenge document extends a
  question.
\<close>

record question_doc =
  title :: "string option"
  difficulty :: "string option"
  tags :: "string list option"
  question :: "string option"
  solution_sql :: "string option"
  explanation :: "string option"

record challenge_doc = question_doc +
  schema_sql :: "string option"
  data_sql :: "string option"
  questions :: "question_doc list option"

text \<open>Truthiness of an optional string: absent and the empty string are falsy.\<close>

definition truthy :: "string option \<Rightarrow> bool" where
  "truthy x = (case x of None \<Rightarrow> False | Some s \<Rightarrow> s \<noteq> [])"

text \<open>
  \<^verbatim>\<open>if (!challengeData.questions && challengeData.question) { challengeData.questions = [...] }\<close>.
  An array is truthy, also the empty one; \<^verbatim>\<open>challengeData.tags || []\<close> is the empty array
  when \<open>tags\<close> is absent.
\<close>

definition normalize_challenge :: "challenge_doc \<Rightarrow> challenge_doc" where
  "normalize_challenge challengeData =
     (if questions challengeData = None \<and> truthy (question challengeData)
      then challengeData\<lparr>questions := Some
             [\<lparr>title = title challengeData,
               difficulty = difficulty challengeData,
               tags = (case tags challengeData of None \<Rightarrow> Some [] | Some t \<Rightarrow> Some t),
               question = question challengeData,
               solution_sql = solution_sql challengeData,
               explanation = explanation challengeData\<rparr>]\<rparr>
      else challengeData)"

text \<open>
  \<^verbatim>\<open>challengeData.data_sql.split(';').filter(s => s.trim().length > 0)\<close>
\<close>

definition insertStmts :: "string \<Rightarrow> string list" where
  "insertStmts data = filter (\<lambda>s. length (trim s) > 0) (split_on CHR '';'' data)"

section \<open>The session state of the SQL application\<close>

datatype gen_mode = Manual | Auto | Company

datatype tab = Editor | Solution

datatype feedback_type = FbError | FbSuccess

datatype feedback_msg = Feedback (fb_type: feedback_type) (message: string)

text \<open>
  The component's state and its two references. \<open>sqlJsRef\<close> says whether the SQL module
  is loaded (the module itself is the engine parameter); \<open>dbRef\<close> is the live database.
  \<open>selectedDifficulty\<close> is the state variable \<open>difficulty\<close>.
\<close>

record 'db app_state =
  apiKey :: string
  mode :: gen_mode
  topic :: string
  companyName :: string
  selectedDifficulty :: string
  isLoading :: bool
  isSqlReady :: bool
  dbRef :: "'db option"
  sqlJsRef :: bool
  challenge :: "challenge_doc option"
  currentQIndex :: int
  tablePreviews :: "jsobj list jsobject"
  expectedResult :: "jsobj list option"
  expectedError :: "string option"
  userQuery :: string
  queryResult :: "jsobj list option"
  feedback :: "feedback_msg option"
  activeTab :: tab
  showApiKey :: bool

definition initial_state :: "'db app_state" where
  "initial_state =
     \<lparr>apiKey = [], mode = Manual, topic = [], companyName = [],
      selectedDifficulty = ''Medium'', isLoading = False, isSqlReady = False,
      dbRef = None, sqlJsRef = False, challenge = None, currentQIndex = 0,
      tablePreviews = [], expectedResult = None, expectedError = None, userQuery = [],
      queryResult = None, feedback = None, activeTab = Editor, showApiKey = True\<rparr>"

text \<open>\<open>initEngine\<close>: loading the module may fail, and so may the first database.\<close>

datatype init_outcome = ModuleFailed | DatabaseFailed | EngineLoaded

definition initEngine :: "'db sql_engine \<Rightarrow> init_outcome \<Rightarrow> 'db app_state \<Rightarrow> 'db app_state" where
  "initEngine eng outcome s =
     (case outcome of
        ModuleFailed \<Rightarrow> s
      | DatabaseFailed \<Rightarrow> s\<lparr>sqlJsRef := True\<rparr>
      | EngineLoaded \<Rightarrow> s\<lparr>sqlJsRef := True, dbRef := Some (new_Database eng), isSqlReady := True\<rparr>)"

text \<open>The messages of the \<open>TypeError\<close>s the runtime raises; their wording is the runtime's.\<close>

definition null_run_msg :: string where
  "null_run_msg = ''Cannot read properties of null (reading run)''"

definition null_exec_msg :: string where
  "null_exec_msg = ''Cannot read properties of null (reading exec)''"

definition undefined_split_msg :: string where
  "undefined_split_msg = ''Cannot read properties of undefined (reading split)''"

definition undefined_length_msg :: string where
  "undefined_length_msg = ''Cannot read properties of undefined (reading length)''"



text \<open>
  The reference result of a question: the \<open>try\<close> block that \<open>generateChallenge\<close> runs
  for the first question and \<open>handleQuestionChange\<close> for the selected one.
\<close>

definition compute_expected ::
  "'db sql_engine \<Rightarrow> 'db app_state \<Rightarrow> string option \<Rightarrow> 'db app_state" where
  "compute_expected eng s sql =
     (case dbRef s of
        None \<Rightarrow> s\<lparr>expectedResult := None, expectedError := Some null_exec_msg\<rparr>
      | Some db \<Rightarrow>
          (case db_exec eng db sql of
             (db', Inl e) \<Rightarrow>
               s\<lparr>dbRef := Some db', expectedResult := None, expectedError := Some e\<rparr>
           | (db', Inr res) \<Rightarrow>
               s\<lparr>dbRef := Some db', expectedResult := Some (parseSqlResult res),
                 expectedError := None\<rparr>))"

section \<open>generateChallenge\<close>

text \<open>
  What the awaited request to \<open>/api/generate\<close> gives: \<open>fetch\<close> or \<open>response.json()\<close>
  throws; the reply carries \<open>error\<close>; the reply has no text at
  \<open>candidates[0].content.parts[0].text\<close> (a \<open>TypeError\<close>); or it has the text. The reply
  is an input of the model, so every theorem holds whatever the service answers to the
  prompt.
\<close>

datatype proxy_reply =
    FetchFailed string
  | ErrorReply string
  | NoCandidates string
  | TextReply string

definition reply_text :: "proxy_reply \<Rightarrow> string + string" where
  "reply_text reply =
     (case reply of
        FetchFailed msg \<Rightarrow> Inl msg
      | ErrorReply msg \<Rightarrow> Inl msg
      | NoCandidates msg \<Rightarrow> Inl msg
      | TextReply text \<Rightarrow> Inr text)"

text \<open>\<^verbatim>\<open>if (sqlJsRef.current) { dbRef.current = new sqlJsRef.current.Database(); }\<close>\<close>

definition reinit_db :: "'db sql_engine \<Rightarrow> 'db app_state \<Rightarrow> 'db app_state" where
  "reinit_db eng s = (if sqlJsRef s then s\<lparr>dbRef := Some (new_Database eng)\<rparr> else s)"

text \<open>\<^verbatim>\<open>dbRef.current.run(challengeData.schema_sql)\<close>, outside any inner \<open>try\<close>.\<close>

definition run_schema ::
  "'db sql_engine \<Rightarrow> 'db app_state \<Rightarrow> string option \<Rightarrow> 'db app_state \<times> string option" where
  "run_schema eng s sql =
     (case dbRef s of
        None \<Rightarrow> (s, Some null_run_msg)
      | Some db \<Rightarrow> (case db_run eng db sql of (db', err) \<Rightarrow> (s\<lparr>dbRef := Some db'\<rparr>, err)))"

text \<open>
  \<^verbatim>\<open>insertStmts.forEach(stmt => { try { dbRef.current.run(stmt); } catch (e) { console.warn(...) } })\<close>
\<close>

definition run_insert :: "'db sql_engine \<Rightarrow> 'db \<Rightarrow> string \<Rightarrow> 'db" where
  "run_insert eng db stmt = fst (db_run eng db (Some stmt))"

definition load_data :: "'db sql_engine \<Rightarrow> 'db app_state \<Rightarrow> string list \<Rightarrow> 'db app_state" where
  "load_data eng s stmts =
     (case dbRef s of
        None \<Rightarrow> s
      | Some db \<Rightarrow> s\<lparr>dbRef := Some (foldl (run_insert eng) db stmts)\<rparr>)"

definition tables_query :: string where
  "tables_query = ''SELECT name FROM sqlite_master WHERE type='' @ [CHR 0x27] @ ''table'' @ [CHR 0x27]"

definition preview_query :: "string \<Rightarrow> string" where
  "preview_query tableName = ''SELECT * FROM '' @ tableName @ '' LIMIT 5''"

fun preview_tables ::
  "'db sql_engine \<Rightarrow> 'db \<Rightarrow> jsval list list \<Rightarrow> jsobj list jsobject
   \<Rightarrow> 'db \<times> (string + jsobj list jsobject)" where
  "preview_tables eng db [] previews = (db, Inr previews)"
| "preview_tables eng db (row # rows) previews =
     (let tableName = nth_or_undefined row 0 in
      if tableName \<noteq> JStr ''sqlite_sequence''
      then (case db_exec eng db (Some (preview_query (js_to_string tableName))) of
              (db', Inl e) \<Rightarrow> (db', Inl e)
            | (db', Inr res) \<Rightarrow>
                preview_tables eng db' rows
                  (obj_set previews (js_to_string tableName) (parseSqlResult res)))
      else preview_tables eng db rows previews)"

definition fetch_previews ::
  "'db sql_engine \<Rightarrow> 'db app_state \<Rightarrow> 'db app_state \<times> (string + jsobj list jsobject)" where
  "fetch_previews eng s =
     (case dbRef s of
        None \<Rightarrow> (s, Inl null_exec_msg)
      | Some db \<Rightarrow>
          (case db_exec eng db (Some tables_query) of
             (db1, Inl e) \<Rightarrow> (s\<lparr>dbRef := Some db1\<rparr>, Inl e)
           | (db1, Inr tablesResult) \<Rightarrow>
               (case tablesResult of
                  [] \<Rightarrow> (s\<lparr>dbRef := Some db1\<rparr>, Inr [])
                | r # _ \<Rightarrow>
                    (case preview_tables eng db1 (row_values r) [] of
                       (db2, out) \<Rightarrow> (s\<lparr>dbRef := Some db2\<rparr>, out)))))"

text \<open>
  The part of the \<open>try\<close> block that builds the environment: a fresh database, the schema,
  the data, the previews. It returns the state (only \<open>dbRef\<close> changes) and the message
  thrown or the previews.
\<close>

definition build_environment ::
  "'db sql_engine \<Rightarrow> challenge_doc \<Rightarrow> 'db app_state
   \<Rightarrow> 'db app_state \<times> (string + jsobj list jsobject)" where
  "build_environment eng challengeData s =
     (case run_schema eng (reinit_db eng s) (schema_sql challengeData) of
        (s2, Some msg) \<Rightarrow> (s2, Inl msg)
      | (s2, None) \<Rightarrow>
          (case data_sql challengeData of
             None \<Rightarrow> (s2, Inl undefined_split_msg)
           | Some d \<Rightarrow> fetch_previews eng (load_data eng s2 (insertStmts d))))"

text \<open>
  The part before the new challenge is shown: the reply, the parse, the normalisation, the
  environment. \<open>Inl\<close> is the message of what was thrown.
\<close>

definition fetch_and_build ::
  "'db sql_engine \<Rightarrow> (string \<Rightarrow> string + challenge_doc) \<Rightarrow> proxy_reply \<Rightarrow> 'db app_state
   \<Rightarrow> 'db app_state \<times> (string + challenge_doc \<times> jsobj list jsobject)" where
  "fetch_and_build eng JSON_parse reply s =
     (case reply_text reply of
        Inl msg \<Rightarrow> (s, Inl msg)
      | Inr text \<Rightarrow>
          (case parse_response JSON_parse text of
             Inl msg \<Rightarrow> (s, Inl msg)
           | Inr parsed \<Rightarrow>
               (case build_environment eng (normalize_challenge parsed) s of
                  (s', Inl msg) \<Rightarrow> (s', Inl msg)
                | (s', Inr previews) \<Rightarrow> (s', Inr (normalize_challenge parsed, previews)))))"

text \<open>
  The rest of the \<open>try\<close> block: the previews and the challenge are set, then the expected
  result of the first question. \<^verbatim>\<open>challengeData.questions.length\<close> throws when
  \<open>questions\<close> is absent, after the challenge is set.
\<close>

definition show_challenge ::
  "'db sql_engine \<Rightarrow> challenge_doc \<Rightarrow> jsobj list jsobject \<Rightarrow> 'db app_state
   \<Rightarrow> 'db app_state \<times> string option" where
  "show_challenge eng challengeData previews s =
     (let s1 = s\<lparr>tablePreviews := previews, challenge := Some challengeData\<rparr> in
      case questions challengeData of
        None \<Rightarrow> (s1, Some undefined_length_msg)
      | Some qs \<Rightarrow>
          (let s2 = (case qs of
                       [] \<Rightarrow> s1
                     | firstQ # _ \<Rightarrow> compute_expected eng s1 (solution_sql firstQ))
           in (s2\<lparr>userQuery := ''SELECT * FROM ...'',
                   feedback := Some (Feedback FbSuccess
                     (if mode s = Company then ''Interview Loop Ready!''
                      else ''Challenge generated!''))\<rparr>, None)))"

definition generate_body ::
  "'db sql_engine \<Rightarrow> (string \<Rightarrow> string + challenge_doc) \<Rightarrow> proxy_reply \<Rightarrow> 'db app_state
   \<Rightarrow> 'db app_state \<times> string option" where
  "generate_body eng JSON_parse reply s =
     (case fetch_and_build eng JSON_parse reply s of
        (s', Inl msg) \<Rightarrow> (s', Some msg)
      | (s', Inr (challengeData, previews)) \<Rightarrow> show_challenge eng challengeData previews s')"

text \<open>The resets between the validation and the \<open>try\<close> block.\<close>

definition clear_session :: "'db app_state \<Rightarrow> 'db app_state" where
  "clear_session s =
     s\<lparr>isLoading := True, challenge := None, currentQIndex := 0, tablePreviews := [],
       expectedResult := None, expectedError := None, queryResult := None,
       feedback := None, userQuery := []\<rparr>"

definition validation_error :: "'db app_state \<Rightarrow> string option" where
  "validation_error s =
     (if mode s = Manual \<and> topic s = [] then Some ''Please enter a topic.''
      else if mode s = Company \<and> companyName s = [] then Some ''Please enter a company name.''
      else None)"

definition generateChallenge ::
  "'db sql_engine \<Rightarrow> (string \<Rightarrow> string + challenge_doc) \<Rightarrow> proxy_reply \<Rightarrow> 'db app_state
   \<Rightarrow> 'db app_state" where
  "generateChallenge eng JSON_parse reply s =
     (case validation_error s of
        Some msg \<Rightarrow> s\<lparr>feedback := Some (Feedback FbError msg)\<rparr>
      | None \<Rightarrow>
          (case generate_body eng JSON_parse reply (clear_session s) of
             (s', Some msg) \<Rightarrow>
               s'\<lparr>feedback := Some (Feedback FbError (''Generation failed: '' @ msg)),
                  isLoading := False\<rparr>
           | (s', None) \<Rightarrow> s'\<lparr>isLoading := False\<rparr>))"

section \<open>handleQuestionChange and handleRunQuery\<close>

text \<open>
  A handler that throws leaves the component's state as it was; \<open>Inl\<close> carries the
  message of the uncaught error. \<^verbatim>\<open>challenge.questions.length\<close> is read only when
  \<open>newIndex < 0\<close> is false.
\<close>

definition handleQuestionChange ::
  "'db sql_engine \<Rightarrow> int \<Rightarrow> 'db app_state \<Rightarrow> string + 'db app_state" where
  "handleQuestionChange eng newIndex s =
     (case challenge s of
        None \<Rightarrow> Inr s
      | Some c \<Rightarrow>
          if newIndex < 0 then Inr s
          else (case questions c of
                  None \<Rightarrow> Inl undefined_length_msg
                | Some qs \<Rightarrow>
                    if newIndex \<ge> int (length qs) then Inr s
                    else Inr (compute_expected eng
                           (s\<lparr>currentQIndex := newIndex, userQuery := ''SELECT * FROM ...'',
                              queryResult := None, feedback := None, activeTab := Editor\<rparr>)
                           (solution_sql (qs ! nat newIndex)))))"








section \<open>The generation proxy\<close>

text \<open>
  \<open>POST\<close> of \<open>api/generate/route.ts\<close>. The request body is unreadable
  (\<open>request.json()\<close> throws) or holds \<open>prompt\<close> and \<open>apiKey\<close>, each possibly absent. The
  provider is a parameter: called with the URL and the prompt, it throws or answers with
  \<open>response.ok\<close>, the status and the body (unreadable or data). The result of \<open>POST\<close> is
  the response and the list of URLs it fetched.
\<close>

datatype request_body = BadBody string | Body (req_prompt: "string option") (req_apiKey: "string option")

datatype 'j provider_outcome =
    ProviderThrows string
  | ProviderResponse (resp_ok: bool) (resp_status: nat) (resp_json: "string + 'j")

datatype 'j response_body = ErrorBody string | Relay 'j

record 'j http_response =
  status :: nat
  body :: "'j response_body"

definition provider_url :: "string \<Rightarrow> string" where
  "provider_url k =
     ''https://generativelanguage.googleapis.com/v1beta/models/gemini-2.0-flash-exp:generateContent?key='' @ k"

definition missing_key_msg :: string where
  "missing_key_msg = ''API Key is missing. Please provide one or configure the server.''"

definition server_error :: "string \<Rightarrow> 'j http_response" where
  "server_error msg =
     \<lparr>status = 500, body = ErrorBody (if msg = [] then ''Internal Server Error'' else msg)\<rparr>"

text \<open>\<^verbatim>\<open>apiKey || process.env.GEMINI_API_KEY\<close>\<close>

definition keyToUse :: "string option \<Rightarrow> string option \<Rightarrow> string option" where
  "keyToUse key GEMINI_API_KEY = (if truthy key then key else GEMINI_API_KEY)"

definition POST ::
  "(string \<Rightarrow> string option \<Rightarrow> 'j provider_outcome) \<Rightarrow> string option \<Rightarrow> request_body
   \<Rightarrow> 'j http_response \<times> string list" where
  "POST provider GEMINI_API_KEY request =
     (case request of
        BadBody msg \<Rightarrow> (server_error msg, [])
      | Body prompt key \<Rightarrow>
          (case keyToUse key GEMINI_API_KEY of
             None \<Rightarrow> (\<lparr>status = 400, body = ErrorBody missing_key_msg\<rparr>, [])
           | Some k \<Rightarrow>
               if k = [] then (\<lparr>status = 400, body = ErrorBody missing_key_msg\<rparr>, [])
               else (case provider (provider_url k) prompt of
                       ProviderThrows msg \<Rightarrow> (server_error msg, [provider_url k])
                     | ProviderResponse ok st (Inl msg) \<Rightarrow> (server_error msg, [provider_url k])
                     | ProviderResponse ok st (Inr data) \<Rightarrow>
                         (if \<not> ok then \<lparr>status = st, body = Relay data\<rparr>
                          else \<lparr>status = 200, body = Relay data\<rparr>, [provider_url k]))))"

section \<open>The Python application\<close>

text \<open>
  \<open>generateChallenge\<close> of \<open>python/page.tsx\<close>. The interpreter (Pyodide) is a parameter:
  \<open>FS_writeFile\<close> is \<^verbatim>\<open>pyodide.FS.writeFile(name, text)\<close>, returning the interpreter after the
  call and the message of the error thrown, if any.
\<close>

record py_challenge_doc =
  py_title :: "string option"
  dataset_description :: "string option"
  task_details :: "string option"
  py_question :: "string option"
  starter_code :: "string option"
  solution_code :: "string option"
  py_explanation :: "string option"

record dataset =
  ds_id :: string
  ds_name :: string
  ds_url :: string
  ds_description :: string

definition DATASETS :: "dataset list" where
  "DATASETS =
     [\<lparr>ds_id = ''titanic'', ds_name = ''Titanic Survival'',
       ds_url = ''https://raw.githubusercontent.com/datasciencedojo/datasets/master/titanic.csv'',
       ds_description = ''Predict survival on the Titanic based on passenger demographics.''\<rparr>,
      \<lparr>ds_id = ''housing'', ds_name = ''California Housing'',
       ds_url = ''https://raw.githubusercontent.com/ageron/handson-ml/master/datasets/housing/housing.csv'',
       ds_description = ''Predict median house values in California districts.''\<rparr>,
      \<lparr>ds_id = ''iris'', ds_name = ''Iris Flowers'',
       ds_url = ''https://raw.githubusercontent.com/mwaskom/seaborn-data/master/iris.csv'',
       ds_description = ''Classify iris flowers into three species.''\<rparr>]"

record 'py py_engine =
  FS_writeFile :: "'py \<Rightarrow> string \<Rightarrow> string \<Rightarrow> 'py \<times> string option"

record 'py py_state =
  py_apiKey :: string
  pyodide :: "'py option"
  isEnvReady :: bool
  selectedDataset :: string
  selectedStage :: string
  py_challenge :: "py_challenge_doc option"
  userCode :: "string option"
  py_output :: string
  plotImage :: "string option"
  isRunning :: bool
  isGenerating :: bool
  py_activeTab :: tab

text \<open>What the awaited \<open>fetch(dataset.url)\<close> and \<open>response.text()\<close> give.\<close>

datatype csv_reply = CsvFailed string | CsvText string

definition loadDatasetToPython ::
  "'py py_engine \<Rightarrow> csv_reply \<Rightarrow> dataset \<Rightarrow> 'py py_state \<Rightarrow> 'py py_state" where
  "loadDatasetToPython eng csv ds s =
     (case pyodide s of
        None \<Rightarrow> s
      | Some py \<Rightarrow>
          (case csv of
             CsvFailed msg \<Rightarrow> s\<lparr>py_output := ''Error loading dataset: '' @ msg\<rparr>
           | CsvText csvText \<Rightarrow>
               (case FS_writeFile eng py (ds_id ds @ ''.csv'') csvText of
                  (py', None) \<Rightarrow> s\<lparr>pyodide := Some py'\<rparr>
                | (py', Some msg) \<Rightarrow>
                    s\<lparr>pyodide := Some py', py_output := ''Error loading dataset: '' @ msg\<rparr>)))"

definition py_generateChallenge ::
  "'py py_engine \<Rightarrow> (string \<Rightarrow> string + py_challenge_doc) \<Rightarrow> csv_reply \<Rightarrow> proxy_reply
   \<Rightarrow> 'py py_state \<Rightarrow> 'py py_state" where
  "py_generateChallenge eng JSON_parse csv reply s =
     (let s1 = s\<lparr>isGenerating := True, py_challenge := None, py_output := [],
                  plotImage := None, py_activeTab := Editor\<rparr>;
          s2 = (case find (\<lambda>d. ds_id d = selectedDataset s) DATASETS of
                  None \<Rightarrow> s1
                | Some ds \<Rightarrow> loadDatasetToPython eng csv ds s1)
      in case reply_text reply of
           Inl msg \<Rightarrow> s2\<lparr>py_output := ''Generation Error: '' @ msg, isGenerating := False\<rparr>
         | Inr text \<Rightarrow>
             (case JSON_parse (trim (strip_fences text)) of
                Inl msg \<Rightarrow> s2\<lparr>py_output := ''Generation Error: '' @ msg, isGenerating := False\<rparr>
              | Inr json \<Rightarrow>
                  s2\<lparr>py_challenge := Some json, userCode := starter_code json,
                     isGenerating := False\<rparr>))"

section \<open>A small engine for concrete runs\<close>

text \<open>
  The theorems below hold for every engine. To run the model on concrete inputs, the
  parameters are instantiated with a deterministic engine that knows a few statements over
  tables of one integer column \<open>a\<close>. A database is the list of its tables with their rows.
\<close>

type_synonym toy_db = "(string \<times> int list) list"

datatype toy_stmt =
    Create string
  | Insert string int
  | Select string
  | Delete string
  | Tables
  | Preview string

definition toy_grammar :: "(string \<times> toy_stmt) list" where
  "toy_grammar =
     [(''CREATE TABLE t(a INT)'', Create ''t''),
      (''CREATE TABLE u(a INT)'', Create ''u''),
      (''INSERT INTO t VALUES (1)'', Insert ''t'' 1),
      (''INSERT INTO t VALUES (2)'', Insert ''t'' 2),
      (''SELECT a FROM t'', Select ''t''),
      (''SELECT a FROM u'', Select ''u''),
      (''DELETE FROM t'', Delete ''t''),
      (tables_query, Tables),
      (''SELECT * FROM t LIMIT 5'', Preview ''t''),
      (''SELECT * FROM u LIMIT 5'', Preview ''u'')]"

definition toy_rows :: "string \<Rightarrow> int list \<Rightarrow> exec_result list" where
  "toy_rows col rows =
     (if rows = [] then []
      else [\<lparr>columns = [col], row_values = map (\<lambda>i. [JNum i]) rows\<rparr>])"

definition toy_step :: "toy_stmt \<Rightarrow> toy_db \<Rightarrow> toy_db \<times> (string + exec_result list)" where
  "toy_step st db =
     (case st of
        Create name \<Rightarrow>
          (if map_of db name \<noteq> None then (db, Inl (''table '' @ name @ '' already exists''))
           else (db @ [(name, [])], Inr []))
      | Insert name i \<Rightarrow>
          (case map_of db name of
             None \<Rightarrow> (db, Inl (''no such table: '' @ name))
           | Some rows \<Rightarrow>
               (map (\<lambda>(n, r). if n = name then (n, r @ [i]) else (n, r)) db, Inr []))
      | Select name \<Rightarrow>
          (case map_of db name of
             None \<Rightarrow> (db, Inl (''no such table: '' @ name))
           | Some rows \<Rightarrow> (db, Inr (toy_rows ''a'' rows)))
      | Delete name \<Rightarrow>
          (case map_of db name of
             None \<Rightarrow> (db, Inl (''no such table: '' @ name))
           | Some rows \<Rightarrow>
               (map (\<lambda>(n, r). if n = name then (n, []) else (n, r)) db, Inr []))
      | Tables \<Rightarrow>
          (db, Inr (if db = [] then []
                    else [\<lparr>columns = [''name''], row_values = map (\<lambda>(n, r). [JStr n]) db\<rparr>]))
      | Preview name \<Rightarrow>
          (case map_of db name of
             None \<Rightarrow> (db, Inl (''no such table: '' @ name))
           | Some rows \<Rightarrow> (db, Inr (toy_rows ''a'' (take 5 rows)))))"

definition toy_exec :: "toy_db \<Rightarrow> string option \<Rightarrow> toy_db \<times> (string + exec_result list)" where
  "toy_exec db sql =
     (case sql of
        None \<Rightarrow> (db, Inl ''not a string'')
      | Some q \<Rightarrow>
          (case map_of toy_grammar q of
             None \<Rightarrow> (db, Inl ''syntax error'')
           | Some st \<Rightarrow> toy_step st db))"

definition toy_run :: "toy_db \<Rightarrow> string option \<Rightarrow> toy_db \<times> string option" where
  "toy_run db sql =
     (case sql of
        None \<Rightarrow> (db, None)
      | Some q \<Rightarrow>
          (case toy_exec db (Some q) of
             (db', Inl e) \<Rightarrow> (db', Some e)
           | (db', Inr res) \<Rightarrow> (db', None)))"

definition toy_engine :: "toy_db sql_engine" where
  "toy_engine = \<lparr>new_Database = [], db_run = toy_run, db_exec = toy_exec\<rparr>"

text \<open>An interpreter that keeps a file system and the global variables defined so far.\<close>

record toy_py =
  py_files :: "string jsobject"
  py_globals :: "string list"

definition toy_py_engine :: "toy_py py_engine" where
  "toy_py_engine =
     \<lparr>FS_writeFile = (\<lambda>py name content. (py\<lparr>py_files := obj_set (py_files py) name content\<rparr>, None))\<rparr>"

subsection \<open>Concrete documents and states\<close>

definition question_A :: question_doc where
  "question_A =
     \<lparr>title = Some ''All rows'', difficulty = Some ''Easy'', tags = Some [''select''],
      question = Some ''List every a.'', solution_sql = Some ''SELECT a FROM t'',
      explanation = Some ''A plain select.''\<rparr>"

definition challenge_A :: challenge_doc where
  "challenge_A =
     \<lparr>title = None, difficulty = None, tags = None, question = None, solution_sql = None,
      explanation = None,
      schema_sql = Some ''CREATE TABLE t(a INT)'',
      data_sql = Some ''INSERT INTO t VALUES (1);INSERT INTO t VALUES (2);'',
      questions = Some [question_A]\<rparr>"

definition question_B :: question_doc where
  "question_B =
     \<lparr>title = Some ''All rows of u'', difficulty = Some ''Easy'', tags = Some [],
      question = Some ''List every a of u.'', solution_sql = Some ''SELECT a FROM u'',
      explanation = Some ''A plain select.''\<rparr>"

definition challenge_B :: challenge_doc where
  "challenge_B =
     \<lparr>title = None, difficulty = None, tags = None, question = None, solution_sql = None,
      explanation = None,
      schema_sql = Some ''CREATE TABLE u(a INT)'',
      data_sql = Some [],
      questions = Some [question_B]\<rparr>"

text \<open>The flat shape of the specification's example: \<open>question\<close> and \<open>solution_sql\<close> at the
  top level, no \<open>questions\<close>, no \<open>tags\<close>.\<close>

definition flat_doc :: challenge_doc where
  "flat_doc =
     \<lparr>title = Some ''Count'', difficulty = Some ''Easy'', tags = None,
      question = Some ''How many rows?'', solution_sql = Some ''SELECT a FROM t'',
      explanation = Some ''Count them.'',
      schema_sql = Some ''CREATE TABLE t(a INT)'', data_sql = Some [],
      questions = None\<rparr>"

text \<open>A parser that knows two texts.\<close>

definition toy_parse :: "string \<Rightarrow> string + challenge_doc" where
  "toy_parse t =
     (if t = ''A'' then Inr challenge_A
      else if t = ''B'' then Inr challenge_B
      else Inl ''Unexpected token'')"

text \<open>The session after challenge A was generated in the random mode, and the one after
  challenge B replaced it.\<close>

definition session_A :: "toy_db app_state" where
  "session_A =
     \<lparr>apiKey = [], mode = Auto, topic = [], companyName = [],
      selectedDifficulty = ''Medium'', isLoading = False, isSqlReady = True,
      dbRef = Some [(''t'', [1, 2])], sqlJsRef = True, challenge = Some challenge_A,
      currentQIndex = 0,
      tablePreviews = [(''t'', [[(''a'', JNum 1)], [(''a'', JNum 2)]])],
      expectedResult = Some [[(''a'', JNum 1)], [(''a'', JNum 2)]],
      expectedError = None, userQuery = ''SELECT * FROM ...'', queryResult = None,
      feedback = Some (Feedback FbSuccess ''Challenge generated!''),
      activeTab = Editor, showApiKey = True\<rparr>"

definition session_B :: "toy_db app_state" where
  "session_B =
     \<lparr>apiKey = [], mode = Auto, topic = [], companyName = [],
      selectedDifficulty = ''Medium'', isLoading = False, isSqlReady = True,
      dbRef = Some [(''u'', [])], sqlJsRef = True, challenge = Some challenge_B,
      currentQIndex = 0, tablePreviews = [(''u'', [])],
      expectedResult = Some [], expectedError = None,
      userQuery = ''SELECT * FROM ...'', queryResult = None,
      feedback = Some (Feedback FbSuccess ''Challenge generated!''),
      activeTab = Editor, showApiKey = True\<rparr>"

text \<open>A Python session whose interpreter holds a global \<open>x\<close> from an earlier run, a document
  and a parser that knows its text.\<close>

definition py_doc :: py_challenge_doc where
  "py_doc =
     \<lparr>py_title = Some ''Missing values'', dataset_description = Some ''Passengers.'',
      task_details = Some ''Count the missing ages.'', py_question = Some ''How many?'',
      starter_code = Some ''import pandas as pd'', solution_code = Some ''print(0)'',
      py_explanation = Some ''Count them.''\<rparr>"

definition toy_py_parse :: "string \<Rightarrow> string + py_challenge_doc" where
  "toy_py_parse t = (if t = ''P'' then Inr py_doc else Inl ''Unexpected token'')"

definition py_session :: "toy_py py_state" where
  "py_session =
     \<lparr>py_apiKey = [], pyodide = Some \<lparr>py_files = [], py_globals = [''x'']\<rparr>,
      isEnvReady = True, selectedDataset = ''titanic'',
      selectedStage = ''Exploratory Data Analysis (EDA)'', py_challenge = None,
      userCode = Some [], py_output = [], plotImage = None, isRunning = False,
      isGenerating = False, py_activeTab = Editor\<rparr>"

definition no_provider :: "string \<Rightarrow> string option \<Rightarrow> unit provider_outcome" where
  "no_provider url prompt = ProviderResponse True 200 (Inr ())"
section \<open>The response parser and the code fence\<close>


lemma rstrip_Nil: "rstrip [] = []"
  by (simp add: rstrip_def)

lemma rstrip_Cons:
  "rstrip (c # z) = (if list_all is_space (c # z) then [] else c # rstrip z)"
  by (auto simp: rstrip_def dropWhile_append list_all_iff)

lemma rstrip_idem: "rstrip (rstrip z) = rstrip z"
  by (simp add: rstrip_def)

lemma backtick_not_space: "\<not> is_space (CHR 0x60)"
  by (simp add: is_space_def)

lemma newline_space: "is_space (CHR 0x0A)"
  by (simp add: is_space_def)

declare strip_fences.simps(2) [simp del]

lemma strip_fences_Cons_open:
  "prefix fence_open (c # cs) \<Longrightarrow>
   strip_fences (c # cs) = strip_fences (dropWhile is_space (drop 7 (c # cs)))"
  by (simp add: strip_fences.simps(2))

lemma strip_fences_Cons_mark:
  "\<not> prefix fence_open (c # cs) \<Longrightarrow> prefix fence_mark (dropWhile is_space (c # cs)) \<Longrightarrow>
   strip_fences (c # cs) = strip_fences (drop 3 (dropWhile is_space (c # cs)))"
  by (simp add: strip_fences.simps(2))

lemma strip_fences_Cons_keep:
  "\<not> prefix fence_open (c # cs) \<Longrightarrow> \<not> prefix fence_mark (dropWhile is_space (c # cs)) \<Longrightarrow>
   strip_fences (c # cs) = c # strip_fences cs"
  by (simp add: strip_fences.simps(2))

lemma strip_fences_spaces: "list_all is_space x \<Longrightarrow> strip_fences x = x"
proof (induction x)
  case Nil
  then show ?case by simp
next
  case (Cons c cs)
  then have c: "is_space c" and cs: "list_all is_space cs" by simp_all
  from c have "c \<noteq> CHR 0x60" using backtick_not_space by auto
  then have a1: "\<not> prefix fence_open (c # cs)"
    by (auto simp: fence_open_def)
  from Cons.prems have "dropWhile is_space (c # cs) = []"
    by (simp add: list_all_iff)
  then have a2: "\<not> prefix fence_mark (dropWhile is_space (c # cs))"
    by (simp add: fence_mark_def)
  show ?case using strip_fences_Cons_keep [OF a1 a2] Cons.IH [OF cs] by simp
qed

lemma prefix_before_newline:
  assumes "prefix p (y @ CHR 0x0A # r)" and "CHR 0x0A \<notin> set p"
  shows "prefix p y"
proof -
  from assms(1) have "prefix p y \<or> (\<exists>us. p = y @ us \<and> prefix us (CHR 0x0A # r))"
    by (simp add: prefix_append)
  then show ?thesis
  proof
    assume "prefix p y"
    then show ?thesis .
  next
    assume "\<exists>us. p = y @ us \<and> prefix us (CHR 0x0A # r)"
    then obtain us where us: "p = y @ us" "prefix us (CHR 0x0A # r)" by blast
    show ?thesis
    proof (cases us)
      case Nil
      with us show ?thesis by simp
    next
      case (Cons u us')
      with us have "u = CHR 0x0A" by simp
      with us Cons assms(2) show ?thesis by simp
    qed
  qed
qed

lemma spaces_only_or_mark:
  "list_all is_space (strip_fences y) \<Longrightarrow>
   list_all is_space y \<or> prefix fence_mark (dropWhile is_space y)"
proof (induction y rule: strip_fences.induct)
  case 1
  then show ?case by simp
next
  case (2 c cs)
  show ?case
  proof (cases "prefix fence_open (c # cs)")
    case True
    then have "c = CHR 0x60" by (auto simp: fence_open_def)
    then have "dropWhile is_space (c # cs) = c # cs"
      using backtick_not_space by simp
    moreover have "prefix fence_mark fence_open"
      by (simp add: fence_mark_def fence_open_def)
    ultimately show ?thesis
      using True by (metis prefix_order.trans)
  next
    case no1: False
    show ?thesis
    proof (cases "prefix fence_mark (dropWhile is_space (c # cs))")
      case True
      then show ?thesis by blast
    next
      case no2: False
      with no1 2(4) have sp: "is_space c" and rest: "list_all is_space (strip_fences cs)"
        by (simp_all add: strip_fences_Cons_keep)
      from 2(3) [OF no1 no2 rest] sp no2 show ?thesis by auto
    qed
  qed
qed

lemma strip_fences_closing:
  "strip_fences (x @ CHR 0x0A # fence_mark) = rstrip (strip_fences x)"
proof (induction x rule: strip_fences.induct)
  case 1
  show ?case
    using newline_space backtick_not_space
    by (simp add: fence_mark_def fence_open_def rstrip_def strip_fences.simps(2))
next
  case (2 c cs)
  let ?s = "CHR 0x0A # fence_mark"
  have nl1: "CHR 0x0A \<notin> set fence_open" by (simp add: fence_open_def)
  have nl2: "CHR 0x0A \<notin> set fence_mark" by (simp add: fence_mark_def)
  have tail: "dropWhile is_space ?s = fence_mark"
    using newline_space backtick_not_space by (simp add: fence_mark_def)
  have sfm: "strip_fences fence_mark = []"
    using backtick_not_space by (simp add: fence_mark_def fence_open_def strip_fences.simps(2))
  show ?case
  proof (cases "prefix fence_open (c # cs)")
    case yes1: True
    then have p1: "prefix fence_open ((c # cs) @ ?s)" by (metis prefix_prefix)
    let ?r = "drop 7 (c # cs)"
    have d: "drop 7 ((c # cs) @ ?s) = ?r @ ?s"
      using yes1 by (auto simp: fence_open_def prefix_def)
    have lhs: "strip_fences ((c # cs) @ ?s) = strip_fences (dropWhile is_space (?r @ ?s))"
      using strip_fences_Cons_open [of c "cs @ ?s"] p1 d by simp
    have rhs: "strip_fences (c # cs) = strip_fences (dropWhile is_space ?r)"
      using yes1 by (rule strip_fences_Cons_open)
    show ?thesis
    proof (cases "list_all is_space ?r")
      case True
      then have e1: "dropWhile is_space (?r @ ?s) = fence_mark"
        using tail by (simp add: dropWhile_append list_all_iff)
      from True have e2: "dropWhile is_space ?r = []" by (simp add: list_all_iff)
      have l: "strip_fences ((c # cs) @ ?s) = []" by (simp only: lhs e1 sfm)
      have r: "strip_fences (c # cs) = []" by (simp only: rhs e2 strip_fences.simps(1))
      show ?thesis by (simp only: l r rstrip_Nil)
    next
      case False
      then have "dropWhile is_space (?r @ ?s) = dropWhile is_space ?r @ ?s"
        by (auto simp: dropWhile_append list_all_iff)
      then show ?thesis using lhs rhs 2(1) [OF yes1] by simp
    qed
  next
    case no1: False
    have q1: "\<not> prefix fence_open ((c # cs) @ ?s)"
      using no1 prefix_before_newline [OF _ nl1] by blast
    show ?thesis
    proof (cases "prefix fence_mark (dropWhile is_space (c # cs))")
      case yes2: True
      have ne: "\<not> list_all is_space (c # cs)"
      proof
        assume "list_all is_space (c # cs)"
        then have "dropWhile is_space (c # cs) = []" by (simp add: list_all_iff)
        with yes2 show False by (simp add: fence_mark_def)
      qed
      then have dw: "dropWhile is_space ((c # cs) @ ?s) = dropWhile is_space (c # cs) @ ?s"
        by (auto simp: dropWhile_append list_all_iff)
      have p2: "prefix fence_mark (dropWhile is_space ((c # cs) @ ?s))"
        using yes2 dw by (metis prefix_prefix)
      have d3: "drop 3 (dropWhile is_space (c # cs) @ ?s) = drop 3 (dropWhile is_space (c # cs)) @ ?s"
        using yes2 by (auto simp: fence_mark_def prefix_def)
      have lhs: "strip_fences ((c # cs) @ ?s) = strip_fences (drop 3 (dropWhile is_space (c # cs)) @ ?s)"
        using strip_fences_Cons_mark [of c "cs @ ?s"] q1 p2 dw d3 by simp
      show ?thesis using lhs 2(2) [OF no1 yes2] strip_fences_Cons_mark [OF no1 yes2] by simp
    next
      case no2: False
      show ?thesis
      proof (cases "list_all is_space (c # cs)")
        case True
        then have "dropWhile is_space ((c # cs) @ ?s) = fence_mark"
          using tail by (simp add: dropWhile_append list_all_iff)
        then have "strip_fences ((c # cs) @ ?s) = strip_fences (drop 3 fence_mark)"
          using strip_fences_Cons_mark [of c "cs @ ?s"] q1 by simp
        then have "strip_fences ((c # cs) @ ?s) = []" by (simp add: fence_mark_def)
        moreover have "rstrip (strip_fences (c # cs)) = []"
          using strip_fences_spaces [OF True] True by (simp add: rstrip_Cons)
        ultimately show ?thesis by simp
      next
        case False
        then have dw: "dropWhile is_space ((c # cs) @ ?s) = dropWhile is_space (c # cs) @ ?s"
          by (auto simp: dropWhile_append list_all_iff)
        have q2: "\<not> prefix fence_mark (dropWhile is_space ((c # cs) @ ?s))"
          using no2 dw prefix_before_newline [OF _ nl2] by metis
        have lhs: "strip_fences ((c # cs) @ ?s) = c # strip_fences (cs @ ?s)"
          using strip_fences_Cons_keep [of c "cs @ ?s"] q1 q2 by simp
        have rhs: "strip_fences (c # cs) = c # strip_fences cs"
          using no1 no2 by (rule strip_fences_Cons_keep)
        have "\<not> list_all is_space (c # strip_fences cs)"
        proof
          assume a: "list_all is_space (c # strip_fences cs)"
          then have "list_all is_space cs \<or> prefix fence_mark (dropWhile is_space cs)"
            using spaces_only_or_mark by simp
          moreover from a have "is_space c" by simp
          ultimately show False using False no2 by auto
        qed
        then show ?thesis using lhs rhs 2(3) [OF no1 no2] by (simp add: rstrip_Cons)
      qed
    qed
  qed
qed


lemma strip_fences_leading:
  "\<not> prefix fence_mark (dropWhile is_space t) \<Longrightarrow>
   strip_fences t = takeWhile is_space t @ strip_fences (dropWhile is_space t)"
proof (induction t)
  case Nil
  then show ?case by simp
next
  case (Cons c cs)
  show ?case
  proof (cases "is_space c")
    case True
    then have "c \<noteq> CHR 0x60" using backtick_not_space by auto
    then have a1: "\<not> prefix fence_open (c # cs)" by (auto simp: fence_open_def)
    from True Cons.prems have "\<not> prefix fence_mark (dropWhile is_space cs)" by simp
    from Cons.IH [OF this] strip_fences_Cons_keep [OF a1 Cons.prems] True
    show ?thesis by simp
  next
    case False
    then show ?thesis by simp
  qed
qed

lemma trim_after_spaces: "list_all is_space w \<Longrightarrow> trim (w @ z) = trim z"
  by (simp add: trim_def dropWhile_append list_all_iff)

lemma trim_spaces:
  assumes "list_all is_space w"
  shows "trim w = []"
proof -
  from assms have "dropWhile is_space w = []" by (simp add: list_all_iff)
  then show ?thesis by (simp only: trim_def rev.simps dropWhile.simps)
qed

lemma trim_solid:
  assumes "\<not> is_space c"
  shows "trim (c # y) = c # rstrip y"
proof -
  from assms have "trim (c # y) = rstrip (c # y)" by (simp add: trim_def rstrip_def)
  with assms show ?thesis by (simp add: rstrip_Cons)
qed

lemma trim_rstrip_solid:
  assumes "\<not> is_space c"
  shows "trim (rstrip (c # z)) = trim (c # z)"
proof -
  from assms have "rstrip (c # z) = c # rstrip z" by (simp add: rstrip_Cons)
  then show ?thesis by (simp add: trim_solid [OF assms] rstrip_idem)
qed

lemma strip_fences_fenced:
  "strip_fences (fenced t) = strip_fences (dropWhile is_space t @ CHR 0x0A # fence_mark)
   \<or> (list_all is_space t \<and> strip_fences (fenced t) = [])"
proof -
  have p: "prefix fence_open (fenced t)" by (simp add: fenced_def)
  have "fenced t = CHR 0x60 # tl (fenced t)" by (simp add: fenced_def fence_open_def)
  then have "strip_fences (fenced t) = strip_fences (dropWhile is_space (drop 7 (fenced t)))"
    using strip_fences_Cons_open [of "CHR 0x60" "tl (fenced t)"] p by simp
  moreover have "drop 7 (fenced t) = CHR 0x0A # t @ CHR 0x0A # fence_mark"
    by (simp add: fenced_def fence_open_def)
  ultimately have e: "strip_fences (fenced t) = strip_fences (dropWhile is_space (t @ CHR 0x0A # fence_mark))"
    using newline_space by simp
  show ?thesis
  proof (cases "list_all is_space t")
    case True
    then have "dropWhile is_space (t @ CHR 0x0A # fence_mark) = fence_mark"
      using newline_space backtick_not_space
      by (simp add: dropWhile_append list_all_iff fence_mark_def)
    moreover have "strip_fences fence_mark = []"
      using backtick_not_space by (simp add: fence_mark_def fence_open_def strip_fences.simps(2))
    ultimately show ?thesis using e True by simp
  next
    case False
    then have "dropWhile is_space (t @ CHR 0x0A # fence_mark) = dropWhile is_space t @ CHR 0x0A # fence_mark"
      by (auto simp: dropWhile_append list_all_iff)
    with e show ?thesis by simp
  qed
qed

lemma trim_strip_fences_fenced:
  assumes "\<not> leading_fence t"
  shows "trim (strip_fences (fenced t)) = trim (strip_fences t)"
proof (cases "list_all is_space t")
  case True
  then have "strip_fences (fenced t) = []"
  proof -
    from strip_fences_fenced [of t] show ?thesis
    proof
      assume a: "strip_fences (fenced t) = strip_fences (dropWhile is_space t @ CHR 0x0A # fence_mark)"
      from True have "dropWhile is_space t = []" by (simp add: list_all_iff)
      with a have "strip_fences (fenced t) = rstrip (strip_fences [])"
        using strip_fences_closing [of "[]"] by simp
      then show ?thesis by (simp add: rstrip_Nil)
    qed simp
  qed
  moreover have "trim (strip_fences t) = []"
    using strip_fences_spaces [OF True] trim_spaces [OF True] by simp
  ultimately show ?thesis by (simp add: trim_def)
next
  case False
  then obtain c0 r where t1: "dropWhile is_space t = c0 # r"
    by (cases "dropWhile is_space t") (auto simp: list_all_iff)
  then have c0: "\<not> is_space c0" by (metis hd_dropWhile list.sel(1) list.distinct(1))
  from assms t1 have nm: "\<not> prefix fence_mark (dropWhile is_space (c0 # r))"
    using c0 by (simp add: leading_fence_def)
  have "prefix fence_mark fence_open" by (simp add: fence_mark_def fence_open_def)
  with nm c0 have no: "\<not> prefix fence_open (c0 # r)"
    by (metis dropWhile.simps(2) prefix_order.trans)
  have keep: "strip_fences (c0 # r) = c0 # strip_fences r"
    using no nm by (rule strip_fences_Cons_keep)
  from strip_fences_fenced [of t] False
  have "strip_fences (fenced t) = strip_fences (dropWhile is_space t @ CHR 0x0A # fence_mark)"
    by blast
  then have l: "strip_fences (fenced t) = rstrip (c0 # strip_fences r)"
    using strip_fences_closing [of "dropWhile is_space t"] t1 keep by simp
  from assms have "strip_fences t = takeWhile is_space t @ strip_fences (dropWhile is_space t)"
    unfolding leading_fence_def by (rule strip_fences_leading)
  then have "strip_fences t = takeWhile is_space t @ c0 # strip_fences r"
    using t1 keep by simp
  moreover have "list_all is_space (takeWhile is_space t)"
    by (simp add: list_all_iff) (metis set_takeWhileD)
  ultimately have "trim (strip_fences t) = trim (c0 # strip_fences r)"
    using trim_after_spaces by simp
  with l trim_rstrip_solid [OF c0] show ?thesis by simp
qed

text \<open>
  C9. Fence stripping is a round trip: the parser gives the same result on a document text
  wrapped in the fence markers as on the text itself. The text is any text that does not
  itself open with a fence after its leading white space, which covers every JSON text.
\<close>

theorem fence_round_trip:
  "\<not> leading_fence t \<Longrightarrow> parse_response JSON_parse (fenced t) = parse_response JSON_parse t"
  by (simp add: parse_response_def cleanJson_def trim_strip_fences_fenced)

theorem fence_round_trip_witness:
  "\<not> leading_fence ''{}'' \<and>
   parse_response (\<lambda>t. Inr t :: string + string) (fenced ''{}'')
     = parse_response (\<lambda>t. Inr t) ''{}''"
proof -
  have h: "\<not> leading_fence ''{}''"
    by (simp add: leading_fence_def fence_mark_def is_space_def)
  from h fence_round_trip [OF h, of "\<lambda>t. Inr t :: string + string"] show ?thesis by blast
qed

section \<open>Comparing results\<close>




declare digits.simps [simp del]


















lemma quote_json_hd: "\<exists>xs. quote_json s = CHR 0x22 # xs"
  by (simp add: quote_json_def)

















section \<open>Generating a challenge\<close>


lemma toy_simps:
  "db_exec toy_engine = toy_exec" "db_run toy_engine = toy_run" "new_Database toy_engine = []"
  by (simp_all add: toy_engine_def)

lemmas toy_defs = toy_exec_def toy_run_def toy_step_def toy_grammar_def toy_rows_def
  tables_query_def preview_query_def

subsection \<open>Only the database changes while the environment is built\<close>

lemma same_state: "\<exists>d. (s :: 'db app_state) = s\<lparr>dbRef := d\<rparr>"
  by (rule exI [of _ "dbRef s"]) simp

lemma reinit_db_frame: "\<exists>d. reinit_db eng s = s\<lparr>dbRef := d\<rparr>"
  using same_state [of s] by (auto simp: reinit_db_def)

lemma run_schema_frame: "\<exists>d. fst (run_schema eng s sql) = s\<lparr>dbRef := d\<rparr>"
  using same_state [of s] by (auto simp: run_schema_def split: option.splits prod.splits)

lemma load_data_frame: "\<exists>d. load_data eng s stmts = s\<lparr>dbRef := d\<rparr>"
  using same_state [of s] by (auto simp: load_data_def split: option.splits)

lemma fetch_previews_frame: "\<exists>d. fst (fetch_previews eng s) = s\<lparr>dbRef := d\<rparr>"
  using same_state [of s]
  by (auto simp: fetch_previews_def split: option.splits prod.splits sum.splits list.splits)

lemma build_environment_frame: "\<exists>d. fst (build_environment eng doc s) = s\<lparr>dbRef := d\<rparr>"
proof -
  obtain d0 where r0: "reinit_db eng s = s\<lparr>dbRef := d0\<rparr>"
    using reinit_db_frame by blast
  obtain s2 r where rs: "run_schema eng (reinit_db eng s) (schema_sql doc) = (s2, r)"
    by (cases "run_schema eng (reinit_db eng s) (schema_sql doc)")
  obtain d1 where "fst (run_schema eng (reinit_db eng s) (schema_sql doc)) = (reinit_db eng s)\<lparr>dbRef := d1\<rparr>"
    using run_schema_frame by blast
  with rs r0 have s2: "s2 = s\<lparr>dbRef := d1\<rparr>" by simp
  show ?thesis
  proof (cases r)
    case (Some msg)
    with rs s2 show ?thesis by (auto simp: build_environment_def)
  next
    case None
    show ?thesis
    proof (cases "data_sql doc")
      case dn: None
      with rs None s2 show ?thesis by (auto simp: build_environment_def)
    next
      case (Some d)
      let ?s3 = "load_data eng s2 (insertStmts d)"
      have b: "build_environment eng doc s = fetch_previews eng ?s3"
        using rs None Some by (simp add: build_environment_def)
      obtain d2 where s3: "?s3 = s2\<lparr>dbRef := d2\<rparr>" using load_data_frame by blast
      obtain d3 where f: "fst (fetch_previews eng ?s3) = ?s3\<lparr>dbRef := d3\<rparr>"
        using fetch_previews_frame by blast
      have "?s3\<lparr>dbRef := d3\<rparr> = s\<lparr>dbRef := d3\<rparr>"
        by (subst s3) (simp add: s2)
      with f have "fst (fetch_previews eng ?s3) = s\<lparr>dbRef := d3\<rparr>"
        by simp
      with b show ?thesis by auto
    qed
  qed
qed

lemma fetch_and_build_frame: "\<exists>d. fst (fetch_and_build eng P reply s) = s\<lparr>dbRef := d\<rparr>"
proof (cases "reply_text reply")
  case (Inl msg)
  then show ?thesis using same_state [of s] by (simp add: fetch_and_build_def)
next
  case (Inr t)
  show ?thesis
  proof (cases "parse_response P t")
    case (Inl msg)
    with Inr show ?thesis using same_state [of s] by (simp add: fetch_and_build_def)
  next
    case pr: (Inr parsed)
    have "fst (fetch_and_build eng P reply s) = fst (build_environment eng (normalize_challenge parsed) s)"
      using Inr pr by (simp add: fetch_and_build_def split: prod.splits sum.splits)
    then show ?thesis using build_environment_frame [of eng "normalize_challenge parsed" s] by simp
  qed
qed


subsection \<open>A generation that fails\<close>

lemma generate_failure:
  assumes "validation_error s = None"
    and "snd (fetch_and_build eng P reply (clear_session s)) = Inl msg"
  shows "\<exists>d. generateChallenge eng P reply s =
           (clear_session s)\<lparr>dbRef := d,
              feedback := Some (Feedback FbError (''Generation failed: '' @ msg)),
              isLoading := False\<rparr>"
proof -
  obtain s' r where fb: "fetch_and_build eng P reply (clear_session s) = (s', r)"
    by (cases "fetch_and_build eng P reply (clear_session s)")
  with assms(2) have r: "r = Inl msg" by simp
  obtain d where "fst (fetch_and_build eng P reply (clear_session s)) = (clear_session s)\<lparr>dbRef := d\<rparr>"
    using fetch_and_build_frame by blast
  with fb have s': "s' = (clear_session s)\<lparr>dbRef := d\<rparr>" by simp
  have "generateChallenge eng P reply s =
      s'\<lparr>feedback := Some (Feedback FbError (''Generation failed: '' @ msg)), isLoading := False\<rparr>"
    using assms(1) fb r by (simp add: generateChallenge_def generate_body_def)
  with s' show ?thesis by auto
qed

text \<open>
  C1 (amended). A generation attempt that the input validation rejects leaves the session
  as it is, but for the feedback. Any other attempt clears the session before it builds:
  when the request, the parse or the building of the environment fails, no challenge is
  shown afterwards, the previews, the expected result, the query result and the user's
  query are empty, the question index is 0, and the feedback is the failure message.
\<close>

theorem failed_generation_clears_session:
  "(validation_error s = Some m \<longrightarrow>
      generateChallenge eng P reply s = s\<lparr>feedback := Some (Feedback FbError m)\<rparr>) \<and>
   (validation_error s = None \<and> snd (fetch_and_build eng P reply (clear_session s)) = Inl msg \<longrightarrow>
      challenge (generateChallenge eng P reply s) = None \<and>
      tablePreviews (generateChallenge eng P reply s) = [] \<and>
      expectedResult (generateChallenge eng P reply s) = None \<and>
      queryResult (generateChallenge eng P reply s) = None \<and>
      userQuery (generateChallenge eng P reply s) = [] \<and>
      currentQIndex (generateChallenge eng P reply s) = 0 \<and>
      feedback (generateChallenge eng P reply s)
        = Some (Feedback FbError (''Generation failed: '' @ msg)))"
proof (intro conjI impI)
  assume "validation_error s = Some m"
  then show "generateChallenge eng P reply s = s\<lparr>feedback := Some (Feedback FbError m)\<rparr>"
    by (simp add: generateChallenge_def)
next
  assume a: "validation_error s = None \<and> snd (fetch_and_build eng P reply (clear_session s)) = Inl msg"
  then obtain d where g: "generateChallenge eng P reply s =
           (clear_session s)\<lparr>dbRef := d,
              feedback := Some (Feedback FbError (''Generation failed: '' @ msg)),
              isLoading := False\<rparr>"
    using generate_failure by blast
  show "challenge (generateChallenge eng P reply s) = None"
    by (simp add: g clear_session_def)
  show "tablePreviews (generateChallenge eng P reply s) = []"
    by (simp add: g clear_session_def)
  show "expectedResult (generateChallenge eng P reply s) = None"
    by (simp add: g clear_session_def)
  show "queryResult (generateChallenge eng P reply s) = None"
    by (simp add: g clear_session_def)
  show "userQuery (generateChallenge eng P reply s) = []"
    by (simp add: g clear_session_def)
  show "currentQIndex (generateChallenge eng P reply s) = 0"
    by (simp add: g clear_session_def)
  show "feedback (generateChallenge eng P reply s)
        = Some (Feedback FbError (''Generation failed: '' @ msg))"
    by (simp add: g clear_session_def)
qed

lemma generate_quota:
  "generateChallenge toy_engine toy_parse (ErrorReply ''quota'') session_A =
     (clear_session session_A)\<lparr>feedback := Some (Feedback FbError ''Generation failed: quota''),
        isLoading := False\<rparr>"
  by (simp add: generateChallenge_def validation_error_def generate_body_def fetch_and_build_def
      reply_text_def session_A_def clear_session_def)

text \<open>
  C1 as stated fails: with challenge A shown, a generation whose reply carries an error
  ends with no challenge shown.
\<close>

theorem failed_generation_loses_challenge:
  "challenge session_A = Some challenge_A \<and>
   feedback (generateChallenge toy_engine toy_parse (ErrorReply ''quota'') session_A)
     = Some (Feedback FbError ''Generation failed: quota'') \<and>
   challenge (generateChallenge toy_engine toy_parse (ErrorReply ''quota'') session_A) = None"
  by (simp add: generate_quota) (simp add: session_A_def clear_session_def)

theorem failed_generation_clears_session_witness:
  "validation_error (session_A\<lparr>mode := Manual\<rparr>) = Some ''Please enter a topic.'' \<and>
   generateChallenge toy_engine toy_parse (ErrorReply ''quota'') (session_A\<lparr>mode := Manual\<rparr>)
     = session_A\<lparr>mode := Manual, feedback := Some (Feedback FbError ''Please enter a topic.'')\<rparr> \<and>
   validation_error session_A = None \<and>
   snd (fetch_and_build toy_engine toy_parse (ErrorReply ''quota'') (clear_session session_A))
     = Inl ''quota'' \<and>
   challenge (generateChallenge toy_engine toy_parse (ErrorReply ''quota'') session_A) = None \<and>
   feedback (generateChallenge toy_engine toy_parse (ErrorReply ''quota'') session_A)
     = Some (Feedback FbError ''Generation failed: quota'')"
proof -
  have v1: "validation_error (session_A\<lparr>mode := Manual\<rparr>) = Some ''Please enter a topic.''"
    by (simp add: validation_error_def session_A_def)
  have v2: "validation_error session_A = None"
    by (simp add: validation_error_def session_A_def)
  have f: "snd (fetch_and_build toy_engine toy_parse (ErrorReply ''quota'') (clear_session session_A))
     = Inl ''quota''"
    by (simp add: fetch_and_build_def reply_text_def)
  from failed_generation_clears_session
    [of "session_A\<lparr>mode := Manual\<rparr>" "''Please enter a topic.''" toy_engine toy_parse
        "ErrorReply ''quota''" "''quota''"] v1
  have a: "generateChallenge toy_engine toy_parse (ErrorReply ''quota'') (session_A\<lparr>mode := Manual\<rparr>)
     = session_A\<lparr>mode := Manual, feedback := Some (Feedback FbError ''Please enter a topic.'')\<rparr>"
    by blast
  from failed_generation_clears_session
    [of session_A m toy_engine toy_parse "ErrorReply ''quota''" "''quota''"] v2 f
  have b: "challenge (generateChallenge toy_engine toy_parse (ErrorReply ''quota'') session_A) = None \<and>
   feedback (generateChallenge toy_engine toy_parse (ErrorReply ''quota'') session_A)
     = Some (Feedback FbError (''Generation failed: '' @ ''quota''))"
    by blast
  from v1 v2 f a b show ?thesis by simp
qed

subsection \<open>The concrete sessions are sessions of the model\<close>


lemma ready_engine_loaded:
  "isSqlReady (initEngine eng outcome initial_state) \<Longrightarrow>
   sqlJsRef (initEngine eng outcome initial_state) \<and>
   dbRef (initEngine eng outcome initial_state) = Some (new_Database eng)"
  by (cases outcome) (simp_all add: initEngine_def initial_state_def)

lemma session_A_generated:
  "generateChallenge toy_engine toy_parse (TextReply ''A'')
     (initEngine toy_engine EngineLoaded (initial_state\<lparr>mode := Auto\<rparr>)) = session_A"
  by (simp add: generateChallenge_def validation_error_def session_A_def initial_state_def
    initEngine_def generate_body_def
    fetch_and_build_def reply_text_def parse_response_def cleanJson_def trim_def strip_fences.simps
    fence_open_def fence_mark_def is_space_def toy_parse_def build_environment_def normalize_challenge_def
    challenge_A_def question_A_def reinit_db_def clear_session_def run_schema_def toy_simps toy_defs
    load_data_def insertStmts_def run_insert_def fetch_previews_def show_challenge_def compute_expected_def
    parseSqlResult_def build_row_def obj_set_def nth_or_undefined_def js_to_string_def is_array_index_def
    is_digit_def truthy_def)



subsection \<open>Replacing the environment\<close>

lemma reinit_db_replaces:
  "sqlJsRef s \<Longrightarrow> reinit_db eng (s\<lparr>dbRef := d\<rparr>) = reinit_db eng s"
  by (simp add: reinit_db_def)

lemma build_environment_replaces:
  "sqlJsRef s \<Longrightarrow> build_environment eng doc (s\<lparr>dbRef := d\<rparr>) = build_environment eng doc s"
  by (simp add: build_environment_def reinit_db_replaces)

lemma clear_session_dbRef: "clear_session (s\<lparr>dbRef := d\<rparr>) = (clear_session s)\<lparr>dbRef := d\<rparr>"
  by (simp add: clear_session_def)

lemma clear_session_sqlJsRef: "sqlJsRef (clear_session s) = sqlJsRef s"
  by (simp add: clear_session_def)

lemma validation_error_dbRef: "validation_error (s\<lparr>dbRef := d\<rparr>) = validation_error s"
  by (simp add: validation_error_def)

lemma generate_success_parsed:
  assumes "feedback (generateChallenge eng P reply s) = Some (Feedback FbSuccess m)"
  shows "validation_error s = None \<and>
         (\<exists>t parsed. reply_text reply = Inr t \<and> parse_response P t = Inr parsed)"
proof (cases "validation_error s")
  case (Some e)
  with assms show ?thesis by (simp add: generateChallenge_def)
next
  case None
  show ?thesis
  proof (cases "reply_text reply")
    case (Inl msg)
    with None assms show ?thesis
      by (simp add: generateChallenge_def generate_body_def fetch_and_build_def)
  next
    case (Inr t)
    show ?thesis
    proof (cases "parse_response P t")
      case (Inl msg)
      with None Inr assms show ?thesis
        by (simp add: generateChallenge_def generate_body_def fetch_and_build_def)
    next
      case pr: (Inr parsed)
      with None Inr show ?thesis by simp
    qed
  qed
qed

text \<open>
  C3 (amended). In the SQL application a successful generation replaces the database: with
  the SQL module loaded, the state after a successful \<open>generateChallenge\<close> is the same
  whatever database the session held before, so nothing defined under the previous
  challenge is left in it.
\<close>

theorem sql_generation_replaces_database:
  assumes "sqlJsRef s"
    and "feedback (generateChallenge eng P reply s) = Some (Feedback FbSuccess m)"
  shows "generateChallenge eng P reply (s\<lparr>dbRef := d\<rparr>) = generateChallenge eng P reply s"
proof -
  from generate_success_parsed [OF assms(2)] obtain t parsed where
    v: "validation_error s = None" and r: "reply_text reply = Inr t"
    and p: "parse_response P t = Inr parsed"
    by blast
  have "sqlJsRef (clear_session s)" using assms(1) by (simp add: clear_session_sqlJsRef)
  then have "build_environment eng (normalize_challenge parsed) ((clear_session s)\<lparr>dbRef := d\<rparr>)
      = build_environment eng (normalize_challenge parsed) (clear_session s)"
    by (rule build_environment_replaces)
  then have "fetch_and_build eng P reply (clear_session (s\<lparr>dbRef := d\<rparr>))
      = fetch_and_build eng P reply (clear_session s)"
    using r p by (simp add: fetch_and_build_def clear_session_dbRef)
  then show ?thesis
    using v by (simp add: generateChallenge_def generate_body_def validation_error_dbRef)
qed

lemma gen_B: "generateChallenge toy_engine toy_parse (TextReply ''B'') session_A = session_B"
  by (simp add: generateChallenge_def validation_error_def session_A_def session_B_def generate_body_def
    fetch_and_build_def reply_text_def parse_response_def cleanJson_def trim_def strip_fences.simps
    fence_open_def fence_mark_def is_space_def toy_parse_def build_environment_def normalize_challenge_def
    challenge_B_def question_B_def reinit_db_def clear_session_def run_schema_def toy_simps toy_defs
    load_data_def insertStmts_def fetch_previews_def show_challenge_def compute_expected_def
    parseSqlResult_def build_row_def obj_set_def nth_or_undefined_def js_to_string_def is_array_index_def
    is_digit_def truthy_def)

theorem sql_generation_replaces_database_witness:
  "sqlJsRef session_A \<and>
   dbRef session_A = Some [(''t'', [1, 2])] \<and>
   feedback (generateChallenge toy_engine toy_parse (TextReply ''B'') session_A)
     = Some (Feedback FbSuccess ''Challenge generated!'') \<and>
   generateChallenge toy_engine toy_parse (TextReply ''B'') (session_A\<lparr>dbRef := Some []\<rparr>)
     = generateChallenge toy_engine toy_parse (TextReply ''B'') session_A \<and>
   dbRef (generateChallenge toy_engine toy_parse (TextReply ''B'') session_A) = Some [(''u'', [])]"
proof -
  have h1: "sqlJsRef session_A" by (simp add: session_A_def)
  have h2: "feedback (generateChallenge toy_engine toy_parse (TextReply ''B'') session_A)
     = Some (Feedback FbSuccess ''Challenge generated!'')"
    by (simp add: gen_B session_B_def)
  have d: "dbRef (generateChallenge toy_engine toy_parse (TextReply ''B'') session_A) = Some [(''u'', [])]"
    by (simp add: gen_B session_B_def)
  have a: "dbRef session_A = Some [(''t'', [1, 2])]" by (simp add: session_A_def)
  from sql_generation_replaces_database [OF h1 h2, of "Some []"] h1 h2 d a show ?thesis by blast
qed

text \<open>
  C3 as stated fails in the Python application: \<open>generateChallenge\<close> there keeps the one
  interpreter and only writes the dataset file, so a global defined before the new challenge
  is still there after it has loaded.
\<close>

theorem python_interpreter_survives_generation:
  "pyodide py_session = Some \<lparr>py_files = [], py_globals = [''x'']\<rparr> \<and>
   py_challenge (py_generateChallenge toy_py_engine toy_py_parse (CsvText ''a,b'') (TextReply ''P'') py_session)
     = Some py_doc \<and>
   pyodide (py_generateChallenge toy_py_engine toy_py_parse (CsvText ''a,b'') (TextReply ''P'') py_session)
     = Some \<lparr>py_files = [(''titanic.csv'', ''a,b'')], py_globals = [''x'']\<rparr>"
  by (simp add: py_generateChallenge_def py_session_def DATASETS_def loadDatasetToPython_def
      toy_py_engine_def obj_set_def is_array_index_def is_digit_def reply_text_def toy_py_parse_def
      trim_def strip_fences.simps fence_open_def fence_mark_def is_space_def)



subsection \<open>Running the user's query\<close>





subsection \<open>The flat document\<close>

text \<open>
  C5 (amended). A document with no \<open>questions\<close> and a non-empty top-level \<open>question\<close> is
  normalised to one question that carries the document's title, difficulty, question,
  solution and explanation as they are, and its tags, or the empty sequence when the
  document has no tags.
\<close>

theorem flat_question_normalized:
  assumes "questions d = None" and "truthy (question d)"
  shows "questions (normalize_challenge d) =
     Some [\<lparr>title = title d, difficulty = difficulty d,
            tags = Some (case tags d of None \<Rightarrow> [] | Some t \<Rightarrow> t),
            question = question d, solution_sql = solution_sql d,
            explanation = explanation d\<rparr>]"
  using assms by (simp add: normalize_challenge_def split: option.splits)

theorem flat_question_normalized_witness:
  "questions flat_doc = None \<and> truthy (question flat_doc) \<and>
   questions (normalize_challenge flat_doc) =
     Some [\<lparr>title = Some ''Count'', difficulty = Some ''Easy'', tags = Some [],
            question = Some ''How many rows?'', solution_sql = Some ''SELECT a FROM t'',
            explanation = Some ''Count them.''\<rparr>]"
proof -
  have h1: "questions flat_doc = None" by (simp add: flat_doc_def)
  have h2: "truthy (question flat_doc)" by (simp add: flat_doc_def truthy_def)
  from flat_question_normalized [OF h1 h2] h1 h2 show ?thesis by (simp add: flat_doc_def)
qed

text \<open>
  C5 as stated fails on the tags: the flat document of the specification's example has no
  \<open>tags\<close>, and its normalised question has the empty sequence of tags.
\<close>

theorem flat_doc_tags_default:
  "questions flat_doc = None \<and> question flat_doc = Some ''How many rows?'' \<and>
   tags flat_doc = None \<and>
   map tags (the (questions (normalize_challenge flat_doc))) = [Some []]"
  by (simp add: flat_doc_def normalize_challenge_def truthy_def)

subsection \<open>The proxy's credential\<close>

text \<open>
  C6. A request that supplies no API key (none, or the empty string), with no default key
  on the server, is answered with status 400 and an error message, and the provider is not
  called; a request that supplies a key has the provider called once, with that key,
  whatever the server's default is.
\<close>

theorem missing_key_rejected_caller_key_first:
  "(\<not> truthy key \<and> \<not> truthy GEMINI_API_KEY \<longrightarrow>
      POST provider GEMINI_API_KEY (Body prompt key)
        = (\<lparr>status = 400, body = ErrorBody missing_key_msg\<rparr>, [])) \<and>
   (k \<noteq> [] \<longrightarrow> snd (POST provider GEMINI_API_KEY (Body prompt (Some k))) = [provider_url k])"
  by (auto simp: POST_def keyToUse_def truthy_def
      split: option.splits provider_outcome.splits sum.splits)

theorem missing_key_rejected_caller_key_first_witness:
  "\<not> truthy (Some []) \<and> \<not> truthy None \<and>
   POST no_provider None (Body (Some ''hello'') (Some []))
     = (\<lparr>status = 400, body = ErrorBody missing_key_msg\<rparr>, []) \<and>
   ''mine'' \<noteq> [] \<and>
   snd (POST no_provider (Some ''server'') (Body (Some ''hello'') (Some ''mine'')))
     = [provider_url ''mine'']"
proof -
  have h1: "\<not> truthy (Some []) \<and> \<not> truthy None" by (simp add: truthy_def)
  have h2: "''mine'' \<noteq> []" by simp
  from missing_key_rejected_caller_key_first
    [of "Some []" None no_provider "Some ''hello''" "''mine''"] h1
  have a: "POST no_provider None (Body (Some ''hello'') (Some []))
     = (\<lparr>status = 400, body = ErrorBody missing_key_msg\<rparr>, [])"
    by blast
  from missing_key_rejected_caller_key_first
    [of "Some ''mine''" "Some ''server''" no_provider "Some ''hello''" "''mine''"] h2
  have b: "snd (POST no_provider (Some ''server'') (Body (Some ''hello'') (Some ''mine'')))
     = [provider_url ''mine'']"
    by blast
  from h1 h2 a b show ?thesis by blast
qed



subsection \<open>Loading the data\<close>

lemma load_data_step:
  "dbRef s = Some db \<Longrightarrow>
   load_data eng s (stmt # rest)
     = load_data eng (s\<lparr>dbRef := Some (fst (db_run eng db (Some stmt)))\<rparr>) rest"
  by (simp add: load_data_def run_insert_def)

lemma schema_failure_aborts:
  assumes "validation_error s = None" and "reply_text reply = Inr t"
    and "parse_response P t = Inr parsed"
    and "snd (run_schema eng (reinit_db eng (clear_session s)) (schema_sql (normalize_challenge parsed)))
           = Some msg"
  shows "challenge (generateChallenge eng P reply s) = None \<and>
         feedback (generateChallenge eng P reply s)
           = Some (Feedback FbError (''Generation failed: '' @ msg))"
proof -
  obtain s2 where "run_schema eng (reinit_db eng (clear_session s))
      (schema_sql (normalize_challenge parsed)) = (s2, Some msg)"
    using assms(4)
    by (cases "run_schema eng (reinit_db eng (clear_session s))
      (schema_sql (normalize_challenge parsed))") simp
  then have "snd (fetch_and_build eng P reply (clear_session s)) = Inl msg"
    using assms(2,3) by (simp add: fetch_and_build_def build_environment_def)
  from generate_failure [OF assms(1) this] show ?thesis
    by (auto simp: clear_session_def)
qed

text \<open>
  C7, the failing input. The data batch holds one valid statement whose string literal
  contains a semicolon. The statements handed to the engine are the two halves around the
  semicolon, so the valid statement itself is never run.
\<close>

theorem data_split_breaks_literal:
  "insertStmts (''INSERT INTO t VALUES ('' @ [CHR 0x27] @ ''a;b'' @ [CHR 0x27] @ '')'')
     = [''INSERT INTO t VALUES ('' @ [CHR 0x27] @ ''a'', ''b'' @ [CHR 0x27] @ '')'']"
  by (simp add: insertStmts_def trim_def is_space_def)

subsection \<open>Changing the question\<close>

lemma compute_expected_fields:
  "challenge (compute_expected eng s sql) = challenge s"
  "currentQIndex (compute_expected eng s sql) = currentQIndex s"
  "userQuery (compute_expected eng s sql) = userQuery s"
  "queryResult (compute_expected eng s sql) = queryResult s"
  "feedback (compute_expected eng s sql) = feedback s"
  "activeTab (compute_expected eng s sql) = activeTab s"
  by (simp_all add: compute_expected_def split: option.splits prod.splits sum.splits)

lemma compute_expected_again:
  assumes "dbRef (compute_expected eng s sql) = dbRef s"
  shows "compute_expected eng (compute_expected eng s sql) sql = compute_expected eng s sql"
proof (cases "dbRef s")
  case None
  then show ?thesis by (simp add: compute_expected_def)
next
  case (Some db)
  obtain db' r where e: "db_exec eng db sql = (db', r)" by (cases "db_exec eng db sql")
  with Some assms have "db' = db"
    by (cases r) (simp_all add: compute_expected_def)
  with Some e show ?thesis by (cases r) (simp_all add: compute_expected_def)
qed

text \<open>
  C8. Selecting the same question twice in a row, the environment being the same before
  the second selection as before the first, gives the same state again, and so the same
  expected result and expected error.
\<close>

theorem question_reselect_idempotent:
  assumes "handleQuestionChange eng i s = Inr s1" and "dbRef s1 = dbRef s"
  shows "handleQuestionChange eng i s1 = Inr s1"
proof (cases "challenge s")
  case None
  with assms(1) show ?thesis by (auto simp: handleQuestionChange_def)
next
  case (Some c)
  show ?thesis
  proof (cases "i < 0")
    case True
    with Some assms(1) show ?thesis by (auto simp: handleQuestionChange_def)
  next
    case nonneg: False
    show ?thesis
    proof (cases "questions c")
      case None
      with Some nonneg assms(1) show ?thesis by (simp add: handleQuestionChange_def)
    next
      case qs: (Some qs)
      show ?thesis
      proof (cases "i \<ge> int (length qs)")
        case True
        with Some nonneg qs assms(1) show ?thesis by (auto simp: handleQuestionChange_def)
      next
        case False
        let ?s' = "s\<lparr>currentQIndex := i, userQuery := ''SELECT * FROM ...'',
                      queryResult := None, feedback := None, activeTab := Editor\<rparr>"
        let ?sql = "solution_sql (qs ! nat i)"
        from Some nonneg qs False assms(1) have s1: "s1 = compute_expected eng ?s' ?sql"
          by (simp add: handleQuestionChange_def)
        have same: "s1\<lparr>currentQIndex := i, userQuery := ''SELECT * FROM ...'',
                      queryResult := None, feedback := None, activeTab := Editor\<rparr> = s1"
          by (simp add: s1 compute_expected_fields)
        have "dbRef (compute_expected eng ?s' ?sql) = dbRef ?s'"
          using assms(2) s1 by simp
        then have again: "compute_expected eng s1 ?sql = s1"
          unfolding s1 by (rule compute_expected_again)
        have "challenge s1 = Some c" by (simp add: s1 compute_expected_fields Some)
        then show ?thesis
          using nonneg qs False same again by (simp add: handleQuestionChange_def)
      qed
    qed
  qed
qed

lemma select_first:
  "handleQuestionChange toy_engine 0 session_A =
   Inr (session_A\<lparr>feedback := None\<rparr>)"
  by (simp add: handleQuestionChange_def session_A_def challenge_A_def question_A_def
      compute_expected_def toy_simps toy_defs parseSqlResult_def build_row_def obj_set_def
      nth_or_undefined_def is_array_index_def is_digit_def)

theorem question_reselect_idempotent_witness:
  "handleQuestionChange toy_engine 0 session_A = Inr (session_A\<lparr>feedback := None\<rparr>) \<and>
   dbRef (session_A\<lparr>feedback := None\<rparr>) = dbRef session_A \<and>
   handleQuestionChange toy_engine 0 (session_A\<lparr>feedback := None\<rparr>)
     = Inr (session_A\<lparr>feedback := None\<rparr>) \<and>
   expectedResult (session_A\<lparr>feedback := None\<rparr>) = Some [[(''a'', JNum 1)], [(''a'', JNum 2)]]"
proof -
  have h2: "dbRef (session_A\<lparr>feedback := None\<rparr>) = dbRef session_A" by simp
  have e: "expectedResult (session_A\<lparr>feedback := None\<rparr>) = Some [[(''a'', JNum 1)], [(''a'', JNum 2)]]"
    by (simp add: session_A_def)
  from question_reselect_idempotent [OF select_first h2] select_first h2 e show ?thesis by blast
qed

text \<open>
  C10. With a challenge loaded, \<open>handleQuestionChange\<close> with an index below 0 or at or
  above the number of questions returns the state as it is: the question index, the user's
  query, the query result, the feedback, the active tab, the expected result and every
  other component are unchanged.
\<close>

theorem question_change_out_of_range:
  assumes "challenge s = Some c" and "questions c = Some qs"
    and "i < 0 \<or> int (length qs) \<le> i"
  shows "handleQuestionChange eng i s = Inr s"
  using assms by (auto simp: handleQuestionChange_def)

theorem question_change_out_of_range_witness:
  "challenge session_A = Some challenge_A \<and> questions challenge_A = Some [question_A] \<and>
   ((-1 :: int) < 0 \<and> int (length [question_A]) \<le> 1) \<and>
   handleQuestionChange toy_engine (-1) session_A = Inr session_A \<and>
   handleQuestionChange toy_engine 1 session_A = Inr session_A"
proof -
  have h1: "challenge session_A = Some challenge_A" by (simp add: session_A_def)
  have h2: "questions challenge_A = Some [question_A]" by (simp add: challenge_A_def)
  have h3: "(-1 :: int) < 0 \<or> int (length [question_A]) \<le> -1" by simp
  have h4: "(1 :: int) < 0 \<or> int (length [question_A]) \<le> 1" by simp
  from question_change_out_of_range [OF h1 h2 h3, of toy_engine]
    question_change_out_of_range [OF h1 h2 h4, of toy_engine] h1 h2
  show ?thesis by simp
qed


end
